theory Spec2Isabelle
  imports Complex_Main
begin

section \<open>Order fulfilment saga of the Orders service\<close>

text \<open>
  A shallow embedding of the Orders service of the microservices demo:
  \<^item> \<^verbatim>\<open>services/orders/app/validators.py\<close>: the pure business-rule checks;
  \<^item> \<^verbatim>\<open>services/orders/app/clients/inventory_client.py\<close> and
    \<^verbatim>\<open>users_client.py\<close>: the HTTP clients;
  \<^item> \<^verbatim>\<open>services/orders/app/crud.py\<close>: the inventory saga and the store operations;
  \<^item> \<^verbatim>\<open>services/orders/app/main.py\<close>: the create and update endpoints.

  Python tuples are HOL tuples, \<open>Optional\<close> is \<open>option\<close>, a raised
  \<open>HTTPException\<close> is an \<open>Inl\<close> result, and everything outside the process (the
  network, the two remote services and the database) is a field of an explicit state
  that every operation takes and returns.
\<close>

subsection \<open>Python values: strings of numbers and decimals\<close>

text \<open>\<open>str(n)\<close> for a Python \<open>int\<close>, as the f-strings of the source print it.\<close>

definition digit_char :: "nat \<Rightarrow> char" where
  "digit_char n = ''0123456789'' ! n"

function str_nat :: "nat \<Rightarrow> string" where
  "str_nat n = (if n < 10 then [digit_char n] else str_nat (n div 10) @ [digit_char (n mod 10)])"
  by pat_completeness auto
termination
  by (relation "measure id") auto

declare str_nat.simps [simp del]

definition str_int :: "int \<Rightarrow> string" where
  "str_int i = (if i < 0 then ''-'' @ str_nat (nat (- i)) else str_nat (nat i))"

text \<open>
  A finite \<open>decimal.Decimal\<close> is a coefficient and an exponent, its value being
  \<open>coefficient * 10 ^ exponent\<close>; the sign is the sign of the coefficient. The pydantic
  schema of the service refuses NaN and the infinities, so they are not represented; nor
  is the negative zero. Arithmetic is exact: the rounding of Python's default context to
  28 significant digits is not modelled.
\<close>

record decimal =
  coefficient :: int
  exponent :: int

definition Decimal_of_int :: "int \<Rightarrow> decimal" where
  "Decimal_of_int n = \<lparr>coefficient = n, exponent = 0\<rparr>"

definition dec_value :: "decimal \<Rightarrow> rat" where
  "dec_value d =
     (if 0 \<le> exponent d then of_int (coefficient d) * 10 ^ nat (exponent d)
      else of_int (coefficient d) / 10 ^ nat (- exponent d))"

text \<open>The coefficient of a decimal once its exponent is lowered to \<open>e\<close>.\<close>

definition dec_scaled :: "decimal \<Rightarrow> int \<Rightarrow> int" where
  "dec_scaled d e = coefficient d * 10 ^ nat (exponent d - e)"

definition dec_add :: "decimal \<Rightarrow> decimal \<Rightarrow> decimal" where
  "dec_add a b =
     (let e = min (exponent a) (exponent b)
      in \<lparr>coefficient = dec_scaled a e + dec_scaled b e, exponent = e\<rparr>)"

definition dec_sub :: "decimal \<Rightarrow> decimal \<Rightarrow> decimal" where
  "dec_sub a b =
     (let e = min (exponent a) (exponent b)
      in \<lparr>coefficient = dec_scaled a e - dec_scaled b e, exponent = e\<rparr>)"

definition dec_mul_int :: "decimal \<Rightarrow> int \<Rightarrow> decimal" where
  "dec_mul_int a n = \<lparr>coefficient = coefficient a * n, exponent = exponent a\<rparr>"

definition dec_abs :: "decimal \<Rightarrow> decimal" where
  "dec_abs a = a\<lparr>coefficient := \<bar>coefficient a\<bar>\<rparr>"

definition dec_less :: "decimal \<Rightarrow> decimal \<Rightarrow> bool" where
  "dec_less a b =
     (let e = min (exponent a) (exponent b) in dec_scaled a e < dec_scaled b e)"

text \<open>
  \<open>str(d)\<close> for a decimal: plain notation when the exponent is at most 0 and the
  number has more than \<open>-6\<close> digits left of the point, scientific notation otherwise.
\<close>

definition str_decimal :: "decimal \<Rightarrow> string" where
  "str_decimal d =
     (let sign = (if coefficient d < 0 then ''-'' else '''');
          digits = str_nat (nat \<bar>coefficient d\<bar>);
          leftdigits = exponent d + int (length digits)
      in if exponent d \<le> 0 \<and> - 6 < leftdigits then
           (if exponent d = 0 then sign @ digits
            else if leftdigits \<le> 0 then
              sign @ ''0.'' @ replicate (nat (- leftdigits)) (CHR ''0'') @ digits
            else sign @ take (nat leftdigits) digits @ ''.'' @ drop (nat leftdigits) digits)
         else
           sign @ take 1 digits @ (if length digits = 1 then '''' else ''.'' @ drop 1 digits)
             @ ''E'' @ (if leftdigits - 1 < 0 then ''-'' else ''+'') @ str_nat (nat \<bar>leftdigits - 1\<bar>))"

subsection \<open>Order items (schemas.OrderItem)\<close>

record order_item =
  sku :: string
  quantity :: int
  price :: decimal

subsection \<open>validators.py\<close>

text \<open>
  The loop of \<open>validate_order_items\<close> over the items, which returns at the first item
  that breaks a rule.
\<close>

fun validate_each_item :: "order_item list \<Rightarrow> bool \<times> string" where
  "validate_each_item [] = (True, '''')"
| "validate_each_item (item # items) =
     (if quantity item \<le> 0 then
        (False, ''Item '' @ sku item @ '': quantity must be positive'')
      else if quantity item > 10000 then
        (False, ''Item '' @ sku item @ '': quantity exceeds maximum (10000)'')
      else if dec_less (price item) (Decimal_of_int 0) then
        (False, ''Item '' @ sku item @ '': price cannot be negative'')
      else if dec_less (Decimal_of_int 1000000) (price item) then
        (False, ''Item '' @ sku item @ '': price exceeds maximum (1,000,000)'')
      else validate_each_item items)"

definition validate_order_items :: "order_item list \<Rightarrow> bool \<times> string" where
  "validate_order_items items =
     (if items = [] then (False, ''Order must contain at least one item'')
      else if length items > 100 then (False, ''Order cannot contain more than 100 items'')
      else if length (map sku items) \<noteq> card (set (map sku items)) then
        (False, ''Order contains duplicate SKUs'')
      else validate_each_item items)"

text \<open>
  \<open>sum(Decimal(str(item.price)) * item.quantity for item in items)\<close>: \<open>sum\<close> starts
  from the integer 0 and adds from the left.
\<close>

definition calculated_total :: "order_item list \<Rightarrow> decimal" where
  "calculated_total items =
     foldl (\<lambda>acc item. dec_add acc (dec_mul_int (price item) (quantity item)))
       (Decimal_of_int 0) items"

definition validate_order_total :: "order_item list \<Rightarrow> decimal \<Rightarrow> bool \<times> string" where
  "validate_order_total items claimed_total =
     (if dec_less \<lparr>coefficient = 1, exponent = - 2\<rparr>
           (dec_abs (dec_sub (calculated_total items) claimed_total))
      then (False, ''Order total mismatch: calculated $'' @ str_decimal (calculated_total items)
                     @ '', claimed $'' @ str_decimal claimed_total)
      else (True, ''''))"

text \<open>The table of \<open>validate_order_status_transition\<close>, a dict in the source.\<close>

definition valid_transitions :: "(string \<times> string list) list" where
  "valid_transitions =
     [(''pending'', [''processing'', ''cancelled'']),
      (''processing'', [''shipped'', ''cancelled'']),
      (''shipped'', [''delivered'', ''cancelled'']),
      (''delivered'', []),
      (''cancelled'', [''pending''])]"

definition validate_order_status_transition :: "string \<Rightarrow> string \<Rightarrow> bool \<times> string" where
  "validate_order_status_transition old_status new_status =
     (case map_of valid_transitions old_status of
        None \<Rightarrow> (False, ''Unknown status: '' @ old_status)
      | Some allowed \<Rightarrow>
          (if map_of valid_transitions new_status = None then
             (False, ''Unknown status: '' @ new_status)
           else if old_status = new_status then (True, '''')
           else if new_status \<notin> set allowed then
             (False, ''Invalid status transition: '' @ old_status @ '' -> '' @ new_status)
           else (True, '''')))"

text \<open>The bounds on one item that \<open>validate_order_items\<close> is specified to enforce.\<close>

definition item_in_bounds :: "order_item \<Rightarrow> bool" where
  "item_in_bounds item \<longleftrightarrow>
     1 \<le> quantity item \<and> quantity item \<le> 10000 \<and>
     0 \<le> dec_value (price item) \<and> dec_value (price item) \<le> 1000000"

text \<open>An item used in examples: five units of X at 10.00.\<close>

definition item_X :: order_item where
  "item_X = \<lparr>sku = ''X'', quantity = 5, price = \<lparr>coefficient = 1000, exponent = - 2\<rparr>\<rparr>"

text \<open>
  The five statuses and the edges that the specification of the guard lists, and the
  ordered pairs of statuses that the guard rejects or accepts as a change.
\<close>

definition statuses :: "string list" where
  "statuses = [''pending'', ''processing'', ''shipped'', ''delivered'', ''cancelled'']"

definition legal_edges :: "(string \<times> string) list" where
  "legal_edges =
     [(''pending'', ''processing''), (''pending'', ''cancelled''),
      (''processing'', ''shipped''), (''processing'', ''cancelled''),
      (''shipped'', ''delivered''), (''shipped'', ''cancelled''),
      (''cancelled'', ''pending'')]"

definition transition_accepted :: "string \<times> string \<Rightarrow> bool" where
  "transition_accepted p = fst (validate_order_status_transition (fst p) (snd p))"

definition rejected_pairs :: "(string \<times> string) list" where
  "rejected_pairs = filter (\<lambda>p. \<not> transition_accepted p) (List.product statuses statuses)"

definition accepted_changes :: "(string \<times> string) list" where
  "accepted_changes =
     filter (\<lambda>p. fst p \<noteq> snd p \<and> transition_accepted p) (List.product statuses statuses)"

subsection \<open>More of Python: f-strings and the \<open>in\<close> test on strings\<close>

text \<open>A value between single quotes, as in \<open>f"SKU '{sku}' not found"\<close>.\<close>

definition quoted :: "string \<Rightarrow> string" where
  "quoted s = [CHR 0x27] @ s @ [CHR 0x27]"

text \<open>An \<open>Optional[str]\<close> inside an f-string: \<open>None\<close> prints as \<open>None\<close>.\<close>

fun str_optional :: "string option \<Rightarrow> string" where
  "str_optional None = ''None''"
| "str_optional (Some s) = s"

fun starts_with :: "string \<Rightarrow> string \<Rightarrow> bool" where
  "starts_with [] text = True"
| "starts_with (c # cs) [] = False"
| "starts_with (c # cs) (d # ds) = (c = d \<and> starts_with cs ds)"

text \<open>\<open>needle in text\<close> for two strings.\<close>

fun str_contains :: "string \<Rightarrow> string \<Rightarrow> bool" where
  "str_contains needle [] = (needle = [])"
| "str_contains needle (c # cs) = (starts_with needle (c # cs) \<or> str_contains needle cs)"

subsection \<open>The world outside the process\<close>

text \<open>
  What happens to one HTTP request of a client. \<open>Deliver\<close>: the request reaches the
  service and its handler answers. \<open>Error_reply code body text\<close>: the request is
  answered with the error status \<open>code\<close> (a 4xx or 5xx status, say for a token that
  the service refuses, or by a gateway) and the response body \<open>body\<close>, the handler
  having changed nothing; \<open>text\<close> is the message of the \<open>HTTPStatusError\<close> that
  \<open>raise_for_status\<close> builds for it. \<open>Transport_error text\<close>: the service is
  unreachable or does not answer within \<open>TIMEOUT\<close>; httpx raises a subclass of
  \<open>HTTPError\<close> with message \<open>text\<close> and the service changes nothing.
\<close>

datatype http_fault =
  Deliver
| Error_reply nat string string
| Transport_error string

text \<open>A row of the Inventory service's table (inventory/app/models.py).\<close>

record inventory_row =
  inv_id :: int
  inv_sku :: string
  inv_qty :: int

text \<open>
  \<open>auth.CurrentUser\<close>. The bearer token is the signed form of the id and the role,
  and the model passes the record where the source forwards the token.
\<close>

record current_user =
  cu_id :: int
  cu_role :: string

text \<open>The item dicts of the JSONB column \<open>orders.items\<close>, written by crud.create_order.\<close>

record stored_item =
  item_sku :: string
  item_quantity :: int
  item_price :: string

text \<open>
  models.Order and models.OrderEvent, without the timestamps. The \<open>total\<close> column is
  kept as the decimal that was written to it.
\<close>

record order_row =
  row_id :: string
  row_user_id :: int
  row_total :: decimal
  row_status :: string
  row_items :: "stored_item list option"

record order_event =
  ev_order_id :: string
  ev_type :: string
  ev_description :: string
  ev_old_value :: "string option"
  ev_new_value :: "string option"
  ev_user_id :: "int option"

text \<open>A call of the inventory client to reserve (reduce) or to release (restore) stock.\<close>

datatype client_call = Reserve string int | Release string int

text \<open>
  The state that the operations act on: the faults that await the next HTTP requests
  (none left: every request is delivered), the table of the Inventory service, the ids
  that the Users service knows, the outcomes that await the next commits of the database
  session (\<open>Some text\<close>: the commit raises with that message; none left: it succeeds),
  the two tables of the Orders service, and the log of the calls made to the inventory
  client, oldest first.
\<close>

record world =
  http_schedule :: "http_fault list"
  inventory :: "inventory_row list"
  users :: "int list"
  commit_schedule :: "string option list"
  orders :: "order_row list"
  order_events :: "order_event list"
  calls :: "client_call list"

definition next_fault :: "world \<Rightarrow> world \<times> http_fault" where
  "next_fault w =
     (case http_schedule w of
        [] \<Rightarrow> (w, Deliver)
      | f # fs \<Rightarrow> (w\<lparr>http_schedule := fs\<rparr>, f))"

text \<open>\<open>db.commit()\<close>: the message of the exception it raises, if it raises.\<close>

definition db_commit :: "world \<Rightarrow> world \<times> string option" where
  "db_commit w =
     (case commit_schedule w of
        [] \<Rightarrow> (w, None)
      | c # cs \<Rightarrow> (w\<lparr>commit_schedule := cs\<rparr>, c))"

subsection \<open>The handlers of the remote services that the clients call\<close>

text \<open>
  inventory/app/main.py, \<open>GET /\<close>: \<open>list_inventory_items\<close> with its defaults
  \<open>skip = 0\<close> and \<open>limit = 100\<close>.
\<close>

definition list_inventory_items :: "world \<Rightarrow> inventory_row list" where
  "list_inventory_items w = take 100 (inventory w)"

text \<open>
  inventory/app/main.py, \<open>PUT /{item_id}\<close> with body \<open>{"qty": new_qty}\<close>:
  \<open>update_inventory_item\<close> behind \<open>require_admin\<close>. The result is the status code
  and the text of the response. The body of a success, the updated row as JSON, is not
  read by the client and is left empty.
\<close>

definition json_detail :: "string \<Rightarrow> string" where
  "json_detail msg = ''{'' @ [CHR 0x22] @ ''detail'' @ [CHR 0x22] @ '':''
     @ [CHR 0x22] @ msg @ [CHR 0x22] @ ''}''"

definition update_inventory_item :: "int \<Rightarrow> int \<Rightarrow> current_user \<Rightarrow> world \<Rightarrow> world \<times> nat \<times> string" where
  "update_inventory_item item_id new_qty token w =
     (if cu_role token \<noteq> ''admin'' then (w, 403, json_detail ''Admin privileges required'')
      else if find (\<lambda>r. inv_id r = item_id) (inventory w) = None then
        (w, 404, json_detail ''Inventory item not found'')
      else
        (w\<lparr>inventory := map (\<lambda>r. if inv_id r = item_id then r\<lparr>inv_qty := new_qty\<rparr> else r)
                            (inventory w)\<rparr>,
         200, ''''))"

text \<open>users/app/main.py, \<open>GET /{user_id}\<close>: 200 for a known user, 404 otherwise.\<close>

definition get_user_status :: "int \<Rightarrow> world \<Rightarrow> nat" where
  "get_user_status user_id w = (if user_id \<in> set (users w) then 200 else 404)"

subsection \<open>clients/users\_client.py and clients/inventory\_client.py\<close>

text \<open>
  A client function returns the new state and either \<open>Inl text\<close>, for an
  \<open>httpx.HTTPError\<close> that it lets through, or \<open>Inr\<close> its value.
\<close>

definition validate_user_exists :: "int \<Rightarrow> current_user \<Rightarrow> world \<Rightarrow> world \<times> (string + bool)" where
  "validate_user_exists user_id token w =
     (case next_fault w of
        (w1, Transport_error text) \<Rightarrow> (w1, Inl text)
      | (w1, Error_reply code body text) \<Rightarrow> (w1, Inr (code = 200))
      | (w1, Deliver) \<Rightarrow> (w1, Inr (get_user_status user_id w1 = 200)))"

definition get_all_items :: "current_user \<Rightarrow> world \<Rightarrow> world \<times> (string + inventory_row list)" where
  "get_all_items token w =
     (case next_fault w of
        (w1, Transport_error text) \<Rightarrow> (w1, Inl text)
      | (w1, Error_reply code body text) \<Rightarrow> (w1, Inl text)
      | (w1, Deliver) \<Rightarrow> (w1, Inr (list_inventory_items w1)))"

definition get_item_by_sku :: "string \<Rightarrow> current_user \<Rightarrow> world \<Rightarrow> world \<times> (string + inventory_row option)" where
  "get_item_by_sku sku' token w =
     (case get_all_items token w of
        (w1, Inl text) \<Rightarrow> (w1, Inl text)
      | (w1, Inr items) \<Rightarrow> (w1, Inr (find (\<lambda>item. inv_sku item = sku') items)))"

text \<open>The loop of \<open>validate_items_exist\<close> over the SKUs.\<close>

fun first_missing :: "string list \<Rightarrow> string list \<Rightarrow> bool \<times> string option" where
  "first_missing [] existing_skus = (True, None)"
| "first_missing (sku' # skus) existing_skus =
     (if sku' \<notin> set existing_skus then (False, Some sku') else first_missing skus existing_skus)"

definition validate_items_exist :: "string list \<Rightarrow> current_user \<Rightarrow> world \<Rightarrow> world \<times> (string + bool \<times> string option)" where
  "validate_items_exist skus token w =
     (case get_all_items token w of
        (w1, Inl text) \<Rightarrow> (w1, Inl text)
      | (w1, Inr items) \<Rightarrow> (w1, Inr (first_missing skus (map inv_sku items))))"

definition check_stock_availability :: "string \<Rightarrow> int \<Rightarrow> current_user \<Rightarrow> world \<Rightarrow> world \<times> (string + bool \<times> int)" where
  "check_stock_availability sku' required_qty token w =
     (case get_item_by_sku sku' token w of
        (w1, Inl text) \<Rightarrow> (w1, Inl text)
      | (w1, Inr None) \<Rightarrow> (w1, Inr (False, 0))
      | (w1, Inr (Some item)) \<Rightarrow> (w1, Inr (inv_qty item \<ge> required_qty, inv_qty item)))"

text \<open>
  The \<open>PUT\<close> request of \<open>reduce_inventory\<close> and \<open>restore_inventory\<close>: the status
  code and the text of the response, or the \<open>HTTPError\<close> raised.
\<close>

definition put_qty :: "int \<Rightarrow> int \<Rightarrow> current_user \<Rightarrow> world \<Rightarrow> world \<times> (string + nat \<times> string)" where
  "put_qty item_id new_qty token w =
     (case next_fault w of
        (w1, Transport_error text) \<Rightarrow> (w1, Inl text)
      | (w1, Error_reply code body text) \<Rightarrow> (w1, Inr (code, body))
      | (w1, Deliver) \<Rightarrow>
          (case update_inventory_item item_id new_qty token w1 of
             (w2, code, body) \<Rightarrow> (w2, Inr (code, body))))"

text \<open>
  \<open>reduce_inventory\<close> and \<open>restore_inventory\<close> catch every \<open>HTTPError\<close>. Each call
  is entered in the log of the state first.
\<close>

definition reduce_inventory :: "string \<Rightarrow> int \<Rightarrow> current_user \<Rightarrow> world \<Rightarrow> world \<times> bool \<times> string option" where
  "reduce_inventory sku' quantity' token w =
     (case get_item_by_sku sku' token (w\<lparr>calls := calls w @ [Reserve sku' quantity']\<rparr>) of
        (w1, Inl text) \<Rightarrow> (w1, False, Some (''Inventory service error: '' @ text))
      | (w1, Inr None) \<Rightarrow> (w1, False, Some (''SKU '' @ quoted sku' @ '' not found''))
      | (w1, Inr (Some item)) \<Rightarrow>
          (if inv_qty item - quantity' < 0 then
             (w1, False, Some (''Insufficient inventory for SKU '' @ quoted sku'
                @ ''. Available: '' @ str_int (inv_qty item)
                @ '', Requested: '' @ str_int quantity'))
           else
             (case put_qty (inv_id item) (inv_qty item - quantity') token w1 of
                (w2, Inl text) \<Rightarrow> (w2, False, Some (''Inventory service error: '' @ text))
              | (w2, Inr (code, body)) \<Rightarrow>
                  (if code = 200 then (w2, True, None)
                   else (w2, False, Some (''Failed to update inventory: '' @ body))))))"

definition restore_inventory :: "string \<Rightarrow> int \<Rightarrow> current_user \<Rightarrow> world \<Rightarrow> world \<times> bool \<times> string option" where
  "restore_inventory sku' quantity' token w =
     (case get_item_by_sku sku' token (w\<lparr>calls := calls w @ [Release sku' quantity']\<rparr>) of
        (w1, Inl text) \<Rightarrow> (w1, False, Some (''Inventory service error: '' @ text))
      | (w1, Inr None) \<Rightarrow> (w1, False, Some (''SKU '' @ quoted sku' @ '' not found''))
      | (w1, Inr (Some item)) \<Rightarrow>
          (case put_qty (inv_id item) (inv_qty item + quantity') token w1 of
             (w2, Inl text) \<Rightarrow> (w2, False, Some (''Inventory service error: '' @ text))
           | (w2, Inr (code, body)) \<Rightarrow>
               (if code = 200 then (w2, True, None)
                else (w2, False, Some (''Failed to restore inventory: '' @ body)))))"

subsection \<open>crud.py: the inventory saga\<close>

text \<open>
  \<open>process_inventory_for_order\<close> and \<open>rollback_inventory_deductions\<close> read only the
  SKU and the quantity of an item, from a schema object or from a stored dict alike; the
  model hands them the items as pairs of the two. What the source writes to its logger
  is not modelled.
\<close>

definition item_pairs :: "order_item list \<Rightarrow> (string \<times> int) list" where
  "item_pairs items = map (\<lambda>item. (sku item, quantity item)) items"

definition stored_pairs :: "stored_item list \<Rightarrow> (string \<times> int) list" where
  "stored_pairs items = map (\<lambda>item. (item_sku item, item_quantity item)) items"

fun rollback_inventory_deductions :: "(string \<times> int) list \<Rightarrow> string list \<Rightarrow> current_user \<Rightarrow> world \<Rightarrow> world" where
  "rollback_inventory_deductions [] processed_skus token w = w"
| "rollback_inventory_deductions ((sku', quantity') # items) processed_skus token w =
     (if sku' \<in> set processed_skus then
        rollback_inventory_deductions items processed_skus token
          (fst (restore_inventory sku' quantity' token w))
      else rollback_inventory_deductions items processed_skus token w)"

text \<open>
  The loop of \<open>process_inventory_for_order\<close> when \<open>deduct\<close> is true: \<open>items\<close> is
  the whole list, which the rollback walks again, \<open>rest\<close> the items still to process.
\<close>

fun deduct_loop :: "(string \<times> int) list \<Rightarrow> (string \<times> int) list \<Rightarrow> string list \<Rightarrow> current_user \<Rightarrow> world
    \<Rightarrow> world \<times> bool \<times> string option \<times> string list" where
  "deduct_loop items [] processed_skus token w = (w, True, None, processed_skus)"
| "deduct_loop items ((sku', quantity') # rest) processed_skus token w =
     (case reduce_inventory sku' quantity' token w of
        (w1, success, error_msg) \<Rightarrow>
          (if success then deduct_loop items rest (processed_skus @ [sku']) token w1
           else
             (if processed_skus \<noteq> [] then
                rollback_inventory_deductions items processed_skus token w1
              else w1,
              False, Some (''Inventory deduction failed: '' @ str_optional error_msg), [])))"

text \<open>The same loop when \<open>deduct\<close> is false: a failed restoration is passed over.\<close>

fun restore_loop :: "(string \<times> int) list \<Rightarrow> string list \<Rightarrow> current_user \<Rightarrow> world
    \<Rightarrow> world \<times> bool \<times> string option \<times> string list" where
  "restore_loop [] processed_skus token w = (w, True, None, processed_skus)"
| "restore_loop ((sku', quantity') # rest) processed_skus token w =
     (case restore_inventory sku' quantity' token w of
        (w1, success, error_msg) \<Rightarrow>
          restore_loop rest (if success then processed_skus @ [sku'] else processed_skus) token w1)"

text \<open>
  The handler \<open>except Exception\<close> of the source has no counterpart: the two client
  functions catch every \<open>HTTPError\<close>, and the model has no other exception inside
  the loop.
\<close>

definition process_inventory_for_order :: "(string \<times> int) list \<Rightarrow> bool \<Rightarrow> current_user \<Rightarrow> world
    \<Rightarrow> world \<times> bool \<times> string option \<times> string list" where
  "process_inventory_for_order items deduct token w =
     (if deduct then deduct_loop items items [] token w else restore_loop items [] token w)"

subsection \<open>crud.py: validation against the remote services, and the store\<close>

text \<open>
  schemas.OrderCreate. The status is a string (\<open>pending\<close> when the request leaves it
  out); a request that sets it to null is not modelled.
\<close>

record order_create =
  oc_id :: string
  oc_user_id :: int
  oc_total :: decimal
  oc_status :: string
  oc_items :: "order_item list"

text \<open>
  schemas.OrderUpdate: \<open>None\<close> for a field that the request leaves out. A request that
  sets a field to null is not modelled.
\<close>

record order_update =
  ou_user_id :: "int option"
  ou_total :: "decimal option"
  ou_status :: "string option"
  ou_items :: "order_item list option"

text \<open>The loop of \<open>validate_order_data\<close> that checks the stock of every item.\<close>

fun check_stock_loop :: "order_item list \<Rightarrow> current_user \<Rightarrow> world \<Rightarrow> world \<times> (string + bool \<times> string option)" where
  "check_stock_loop [] token w = (w, Inr (True, None))"
| "check_stock_loop (item # items) token w =
     (case check_stock_availability (sku item) (quantity item) token w of
        (w1, Inl text) \<Rightarrow> (w1, Inl text)
      | (w1, Inr (available, current_stock)) \<Rightarrow>
          (if \<not> available then
             (w1, Inr (False, Some (''Insufficient stock for SKU '' @ quoted (sku item)
                @ ''. Available: '' @ str_int current_stock
                @ '', Required: '' @ str_int (quantity item))))
           else check_stock_loop items token w1))"

definition validate_order_data :: "order_create \<Rightarrow> current_user \<Rightarrow> world \<Rightarrow> world \<times> bool \<times> string option" where
  "validate_order_data order token w =
     (case validate_user_exists (oc_user_id order) token w of
        (w1, Inl text) \<Rightarrow> (w1, False, Some (''Service communication error: '' @ text))
      | (w1, Inr user_exists) \<Rightarrow>
          (if \<not> user_exists then
             (w1, False, Some (''User with ID '' @ str_int (oc_user_id order) @ '' does not exist''))
           else if oc_items order \<noteq> [] then
             (case validate_items_exist (map sku (oc_items order)) token w1 of
                (w2, Inl text) \<Rightarrow> (w2, False, Some (''Service communication error: '' @ text))
              | (w2, Inr (all_exist, missing_sku)) \<Rightarrow>
                  (if \<not> all_exist then
                     (w2, False, Some (''Inventory item with SKU '' @ quoted (str_optional missing_sku)
                        @ '' does not exist''))
                   else
                     (case check_stock_loop (oc_items order) token w2 of
                        (w3, Inl text) \<Rightarrow>
                          (w3, False, Some (''Service communication error: '' @ text))
                      | (w3, Inr result) \<Rightarrow> (w3, result))))
           else (w1, True, None)))"

definition get_order :: "string \<Rightarrow> world \<Rightarrow> order_row option" where
  "get_order order_id w = find (\<lambda>row. row_id row = order_id) (orders w)"

definition items_data :: "order_item list \<Rightarrow> stored_item list" where
  "items_data items =
     map (\<lambda>item. \<lparr>item_sku = sku item, item_quantity = quantity item,
                   item_price = str_decimal (price item)\<rparr>) items"

text \<open>
  \<open>crud.create_order\<close>: \<open>Inl text\<close> when the commit raises, and then nothing is
  written. Besides the failures of the schedule, the commit raises when the primary key
  is taken; the text of that exception is the database driver's and is abridged here.
\<close>

definition crud_create_order :: "order_create \<Rightarrow> world \<Rightarrow> world \<times> (string + order_row)" where
  "crud_create_order order w =
     (case db_commit w of
        (w1, Some text) \<Rightarrow> (w1, Inl text)
      | (w1, None) \<Rightarrow>
          (if get_order (oc_id order) w1 \<noteq> None then
             (w1, Inl ''duplicate key value violates unique constraint'')
           else
             (w1\<lparr>orders := orders w1 @
                  [\<lparr>row_id = oc_id order, row_user_id = oc_user_id order,
                    row_total = oc_total order, row_status = oc_status order,
                    row_items = Some (items_data (oc_items order))\<rparr>]\<rparr>,
              Inr \<lparr>row_id = oc_id order, row_user_id = oc_user_id order,
                   row_total = oc_total order, row_status = oc_status order,
                   row_items = Some (items_data (oc_items order))\<rparr>)))"

text \<open>The assignments of \<open>crud.update_order\<close>: only the fields of the request are set.\<close>

definition apply_update :: "order_update \<Rightarrow> order_row \<Rightarrow> order_row" where
  "apply_update order db_order =
     db_order
       \<lparr>row_user_id := (case ou_user_id order of None \<Rightarrow> row_user_id db_order | Some v \<Rightarrow> v),
        row_total := (case ou_total order of None \<Rightarrow> row_total db_order | Some v \<Rightarrow> v),
        row_status := (case ou_status order of None \<Rightarrow> row_status db_order | Some v \<Rightarrow> v),
        row_items := (case ou_items order of None \<Rightarrow> row_items db_order
                      | Some v \<Rightarrow> Some (items_data v))\<rparr>"

text \<open>
  \<open>crud.update_order\<close>: \<open>Inr None\<close> when there is no such order, \<open>Inl text\<close> when
  the commit raises. The order id is the primary key of the table, so one row is
  rewritten.
\<close>

definition crud_update_order :: "string \<Rightarrow> order_update \<Rightarrow> world \<Rightarrow> world \<times> (string + order_row option)" where
  "crud_update_order order_id order w =
     (case get_order order_id w of
        None \<Rightarrow> (w, Inr None)
      | Some db_order \<Rightarrow>
          (case db_commit w of
             (w1, Some text) \<Rightarrow> (w1, Inl text)
           | (w1, None) \<Rightarrow>
               (w1\<lparr>orders := map (\<lambda>row. if row_id row = order_id then apply_update order db_order
                                          else row) (orders w1)\<rparr>,
                Inr (Some (apply_update order db_order)))))"

subsection \<open>main.py: the endpoints\<close>

text \<open>
  What an endpoint answers when it does not return the order: an \<open>HTTPException\<close>
  with its status code and detail, or an exception that no handler catches (which the
  framework turns into a 500 response).
\<close>

datatype failure = HTTPException nat string | Unhandled string

text \<open>\<open>log_order_event\<close>: the message of the exception of its commit, if it raises.\<close>

definition log_order_event :: "order_event \<Rightarrow> world \<Rightarrow> world \<times> string option" where
  "log_order_event event w =
     (case db_commit w of
        (w1, Some text) \<Rightarrow> (w1, Some text)
      | (w1, None) \<Rightarrow> (w1\<lparr>order_events := order_events w1 @ [event]\<rparr>, None))"

text \<open>
  An \<open>HTTPException\<close> whose detail is an \<open>Optional[str]\<close>: with \<open>None\<close> the
  framework puts the phrase of the status code, and the one code so used is 400.
\<close>

fun http_exception_400 :: "string option \<Rightarrow> failure" where
  "http_exception_400 None = HTTPException 400 ''Bad Request''"
| "http_exception_400 (Some detail) = HTTPException 400 detail"

text \<open>
  The answer of \<open>create_order\<close> to a failed validation. The test
  \<open>"Service communication error" in error_message\<close> raises a \<open>TypeError\<close> on
  \<open>None\<close>.
\<close>

fun validation_failure :: "string option \<Rightarrow> failure" where
  "validation_failure None = Unhandled ''argument of type NoneType is not iterable''"
| "validation_failure (Some error_message) =
     (if str_contains ''Service communication error'' error_message then
        HTTPException 503 error_message
      else HTTPException 400 error_message)"

definition create_order :: "order_create \<Rightarrow> current_user \<Rightarrow> world \<Rightarrow> world \<times> (failure + order_row)" where
  "create_order order current_user w =
     (if get_order (oc_id order) w \<noteq> None then
        (w, Inl (HTTPException 400 ''Order ID already exists''))
      else if cu_role current_user \<noteq> ''admin'' \<and> oc_user_id order \<noteq> cu_id current_user then
        (w, Inl (HTTPException 403 ''Can only create orders for yourself''))
      else
        (case validate_order_data order current_user w of
           (w1, is_valid, error_message) \<Rightarrow>
             (if \<not> is_valid then (w1, Inl (validation_failure error_message))
              else
                (case (if oc_items order \<noteq> [] \<and> oc_status order \<noteq> ''cancelled'' then
                         process_inventory_for_order (item_pairs (oc_items order)) True
                           current_user w1
                       else (w1, True, None, [])) of
                   (w2, success, error_msg, processed) \<Rightarrow>
                     (if \<not> success then (w2, Inl (http_exception_400 error_msg))
                      else
                        (case crud_create_order order w2 of
                           (w3, Inl text) \<Rightarrow>
                             (w3, Inl (HTTPException 500 (''Failed to create order: '' @ text)))
                         | (w3, Inr db_order) \<Rightarrow>
                             (case log_order_event
                                     \<lparr>ev_order_id = oc_id order, ev_type = ''created'',
                                      ev_description =
                                        (''Order created with status '' @ quoted (oc_status order)),
                                      ev_old_value = None, ev_new_value = Some (oc_status order),
                                      ev_user_id = Some (cu_id current_user)\<rparr> w3 of
                                (w4, Some text) \<Rightarrow>
                                  (w4, Inl (HTTPException 500 (''Failed to create order: '' @ text)))
                              | (w4, None) \<Rightarrow> (w4, Inr db_order))))))))"

text \<open>
  The inventory step of \<open>update_order\<close>, entered when the status changes from
  \<open>old_status\<close> to \<open>new_status\<close>: restore the stock when the order is cancelled,
  deduct it when a cancelled order is reactivated. \<open>Some\<close> is the \<open>HTTPException\<close>
  raised.
\<close>

definition update_inventory_step :: "order_row \<Rightarrow> string \<Rightarrow> string \<Rightarrow> current_user \<Rightarrow> world \<Rightarrow> world \<times> failure option" where
  "update_inventory_step existing_order old_status new_status current_user w =
     (if new_status = ''cancelled'' \<and> old_status \<noteq> ''cancelled'' then
        (case row_items existing_order of
           None \<Rightarrow> (w, None)
         | Some items \<Rightarrow>
             (if items = [] then (w, None)
              else
                (case process_inventory_for_order (stored_pairs items) False current_user w of
                   (w1, success, error_msg, processed) \<Rightarrow>
                     (if \<not> success then
                        (w1, Some (HTTPException 400
                           (''Failed to restore inventory: '' @ str_optional error_msg)))
                      else (w1, None)))))
      else if old_status = ''cancelled'' \<and> new_status \<noteq> ''cancelled'' then
        (case row_items existing_order of
           None \<Rightarrow> (w, None)
         | Some items \<Rightarrow>
             (if items = [] then (w, None)
              else
                (case process_inventory_for_order (stored_pairs items) True current_user w of
                   (w1, success, error_msg, processed) \<Rightarrow>
                     (if \<not> success then
                        (w1, Some (HTTPException 400
                           (''Failed to deduct inventory: '' @ str_optional error_msg)))
                      else (w1, None)))))
      else (w, None))"

text \<open>\<open>order.status and order.status != existing_order.status\<close>.\<close>

definition status_changes :: "order_update \<Rightarrow> order_row \<Rightarrow> bool" where
  "status_changes order existing_order =
     (case ou_status order of
        None \<Rightarrow> False
      | Some new_status \<Rightarrow> new_status \<noteq> [] \<and> new_status \<noteq> row_status existing_order)"

text \<open>The event that \<open>update_order\<close> logs.\<close>

definition update_event :: "string \<Rightarrow> order_update \<Rightarrow> order_row \<Rightarrow> current_user \<Rightarrow> order_event" where
  "update_event order_id order existing_order current_user =
     (if status_changes order existing_order then
        \<lparr>ev_order_id = order_id, ev_type = ''status_changed'',
         ev_description =
           (''Status changed from '' @ quoted (row_status existing_order)
              @ '' to '' @ quoted (str_optional (ou_status order))),
         ev_old_value = Some (row_status existing_order), ev_new_value = ou_status order,
         ev_user_id = Some (cu_id current_user)\<rparr>
      else
        \<lparr>ev_order_id = order_id, ev_type = ''updated'',
         ev_description = ''Order details updated'',
         ev_old_value = None, ev_new_value = None,
         ev_user_id = Some (cu_id current_user)\<rparr>)"

definition update_order :: "string \<Rightarrow> order_update \<Rightarrow> current_user \<Rightarrow> world \<Rightarrow> world \<times> (failure + order_row)" where
  "update_order order_id order current_user w =
     (case get_order order_id w of
        None \<Rightarrow> (w, Inl (HTTPException 404 ''Order not found''))
      | Some existing_order \<Rightarrow>
          (if cu_role current_user \<noteq> ''admin'' \<and> row_user_id existing_order \<noteq> cu_id current_user
           then (w, Inl (HTTPException 403 ''Not authorized to update this order''))
           else
             (case (if status_changes order existing_order then
                      update_inventory_step existing_order (row_status existing_order)
                        (str_optional (ou_status order)) current_user w
                    else (w, None)) of
                (w1, Some raised) \<Rightarrow> (w1, Inl raised)
              | (w1, None) \<Rightarrow>
                  (case crud_update_order order_id order w1 of
                     (w2, Inl text) \<Rightarrow> (w2, Inl (Unhandled text))
                   | (w2, Inr None) \<Rightarrow> (w2, Inl (HTTPException 404 ''Order not found''))
                   | (w2, Inr (Some db_order)) \<Rightarrow>
                       (case log_order_event
                               (update_event order_id order existing_order current_user) w2 of
                          (w3, Some text) \<Rightarrow> (w3, Inl (Unhandled text))
                        | (w3, None) \<Rightarrow> (w3, Inr db_order))))))"

text \<open>
  Vocabulary for the statements about the saga: the log entries of a list of items, the
  state after the reservation of each item of a list in turn, whether all of these
  reservations succeed, and the states that agree on the database session.
\<close>

definition reserve_call :: "string \<times> int \<Rightarrow> client_call" where
  "reserve_call p = Reserve (fst p) (snd p)"

definition release_call :: "string \<times> int \<Rightarrow> client_call" where
  "release_call p = Release (fst p) (snd p)"

fun reserve_prefix :: "(string \<times> int) list \<Rightarrow> current_user \<Rightarrow> world \<Rightarrow> world" where
  "reserve_prefix [] token w = w"
| "reserve_prefix (p # ps) token w =
     reserve_prefix ps token (fst (reduce_inventory (fst p) (snd p) token w))"

fun reservations_succeed :: "(string \<times> int) list \<Rightarrow> current_user \<Rightarrow> world \<Rightarrow> bool" where
  "reservations_succeed [] token w = True"
| "reservations_succeed (p # ps) token w =
     (fst (snd (reduce_inventory (fst p) (snd p) token w)) \<and>
      reservations_succeed ps token (fst (reduce_inventory (fst p) (snd p) token w)))"

definition same_store :: "world \<Rightarrow> world \<Rightarrow> bool" where
  "same_store w w' \<longleftrightarrow>
     orders w' = orders w \<and> order_events w' = order_events w \<and>
     commit_schedule w' = commit_schedule w"

text \<open>Examples: an administrator, a world with five units of X, and orders for it.\<close>

definition admin :: current_user where
  "admin = \<lparr>cu_id = 1, cu_role = ''admin''\<rparr>"

definition world_A :: world where
  "world_A =
     \<lparr>http_schedule = [], inventory = [\<lparr>inv_id = 1, inv_sku = ''X'', inv_qty = 5\<rparr>],
      users = [1], commit_schedule = [], orders = [], order_events = [], calls = []\<rparr>"

definition order_A :: order_create where
  "order_A =
     \<lparr>oc_id = ''O1'', oc_user_id = 1, oc_total = \<lparr>coefficient = 5000, exponent = - 2\<rparr>,
      oc_status = ''pending'', oc_items = [item_X]\<rparr>"

text \<open>An order with two lines of three units of X each.\<close>

definition order_dup :: order_create where
  "order_dup =
     \<lparr>oc_id = ''O2'', oc_user_id = 1, oc_total = \<lparr>coefficient = 6000, exponent = - 2\<rparr>,
      oc_status = ''pending'',
      oc_items = [item_X\<lparr>quantity := 3\<rparr>, item_X\<lparr>quantity := 3\<rparr>]\<rparr>"

section \<open>Properties\<close>

subsection \<open>Decimals\<close>


lemma dec_value_powi: "dec_value d = of_int (coefficient d) * 10 powi exponent d"
  by (simp add: dec_value_def power_int_def field_simps)

lemma dec_value_scaled:
  assumes "e \<le> exponent d"
  shows "dec_value d = of_int (dec_scaled d e) * 10 powi e"
proof -
  have "(10::rat) powi exponent d = 10 powi (exponent d - e) * 10 powi e"
    by (simp flip: power_int_add)
  moreover have "(10::rat) powi (exponent d - e) = 10 ^ nat (exponent d - e)"
    using assms by (simp add: power_int_def)
  ultimately show ?thesis
    by (simp add: dec_value_powi dec_scaled_def)
qed

lemma dec_less_iff: "dec_less a b \<longleftrightarrow> dec_value a < dec_value b"
proof -
  define e where "e = min (exponent a) (exponent b)"
  have a: "dec_value a = of_int (dec_scaled a e) * 10 powi e"
    and b: "dec_value b = of_int (dec_scaled b e) * 10 powi e"
    by (simp_all add: dec_value_scaled e_def)
  have "(0::rat) < 10 powi e"
    by simp
  then show ?thesis
    unfolding a b dec_less_def Let_def e_def [symmetric]
    by (simp add: mult_less_cancel_right_pos del: of_int_less_iff) (simp)
qed

lemma dec_value_of_int [simp]: "dec_value (Decimal_of_int n) = of_int n"
  by (simp add: dec_value_def Decimal_of_int_def)

lemma validate_each_item_accepts_iff:
  "fst (validate_each_item items) \<longleftrightarrow> (\<forall>item \<in> set items. item_in_bounds item)"
  by (induction items) (auto simp: item_in_bounds_def dec_less_iff)

lemma validate_each_item_accepts_reason:
  "fst (validate_each_item items) \<Longrightarrow> snd (validate_each_item items) = ''''"
  by (induction items) (auto split: if_splits)

lemma validate_each_item_quantity_low:
  assumes "\<forall>item \<in> set items. quantity item \<le> 10000 \<and>
             0 \<le> dec_value (price item) \<and> dec_value (price item) \<le> 1000000"
    and "\<exists>item \<in> set items. quantity item \<le> 0"
  shows "\<exists>item \<in> set items. quantity item \<le> 0 \<and>
           validate_each_item items = (False, ''Item '' @ sku item @ '': quantity must be positive'')"
  using assms by (induction items) (auto simp: dec_less_iff)

lemma validate_each_item_quantity_high:
  assumes "\<forall>item \<in> set items. 1 \<le> quantity item \<and>
             0 \<le> dec_value (price item) \<and> dec_value (price item) \<le> 1000000"
    and "\<exists>item \<in> set items. 10000 < quantity item"
  shows "\<exists>item \<in> set items. 10000 < quantity item \<and>
           validate_each_item items =
             (False, ''Item '' @ sku item @ '': quantity exceeds maximum (10000)'')"
  using assms by (induction items) (auto simp: dec_less_iff)

lemma validate_each_item_price_low:
  assumes "\<forall>item \<in> set items. 1 \<le> quantity item \<and> quantity item \<le> 10000 \<and>
             dec_value (price item) \<le> 1000000"
    and "\<exists>item \<in> set items. dec_value (price item) < 0"
  shows "\<exists>item \<in> set items. dec_value (price item) < 0 \<and>
           validate_each_item items = (False, ''Item '' @ sku item @ '': price cannot be negative'')"
  using assms by (induction items) (auto simp: dec_less_iff)

lemma validate_each_item_price_high:
  assumes "\<forall>item \<in> set items. 1 \<le> quantity item \<and> quantity item \<le> 10000 \<and>
             0 \<le> dec_value (price item)"
    and "\<exists>item \<in> set items. 1000000 < dec_value (price item)"
  shows "\<exists>item \<in> set items. 1000000 < dec_value (price item) \<and>
           validate_each_item items =
             (False, ''Item '' @ sku item @ '': price exceeds maximum (1,000,000)'')"
  using assms by (induction items) (auto simp: dec_less_iff)

lemma duplicate_test_iff: "length xs \<noteq> card (set xs) \<longleftrightarrow> \<not> distinct xs"
  by (metis card_distinct distinct_card)

subsection \<open>The item validator\<close>


text \<open>
  C9, amended. A non-empty item list with at most 100 entries, unique SKUs, quantities in
  [1, 10000] and prices in [0, 1000000] is accepted, and only such a list is. An empty
  list, a list of more than 100 items, and a list with a duplicate SKU are each rejected
  with the reason of that rule; a list that breaks only the lower or only the upper bound
  on a quantity or a price is rejected with the reason of that bound, naming the SKU of
  an item that breaks it.
\<close>

theorem validate_order_items_spec:
  "(fst (validate_order_items items) \<longleftrightarrow>
      items \<noteq> [] \<and> length items \<le> 100 \<and> distinct (map sku items) \<and>
      (\<forall>item \<in> set items. item_in_bounds item))
   \<and> (fst (validate_order_items items) \<longrightarrow> snd (validate_order_items items) = '''')
   \<and> (items = [] \<longrightarrow>
        validate_order_items items = (False, ''Order must contain at least one item''))
   \<and> (100 < length items \<longrightarrow>
        validate_order_items items = (False, ''Order cannot contain more than 100 items''))
   \<and> (items \<noteq> [] \<and> length items \<le> 100 \<and> \<not> distinct (map sku items) \<longrightarrow>
        validate_order_items items = (False, ''Order contains duplicate SKUs''))
   \<and> (items \<noteq> [] \<and> length items \<le> 100 \<and> distinct (map sku items) \<and>
        (\<forall>item \<in> set items. quantity item \<le> 10000 \<and>
            0 \<le> dec_value (price item) \<and> dec_value (price item) \<le> 1000000) \<and>
        (\<exists>item \<in> set items. quantity item \<le> 0) \<longrightarrow>
        (\<exists>item \<in> set items. quantity item \<le> 0 \<and>
           validate_order_items items =
             (False, ''Item '' @ sku item @ '': quantity must be positive'')))
   \<and> (items \<noteq> [] \<and> length items \<le> 100 \<and> distinct (map sku items) \<and>
        (\<forall>item \<in> set items. 1 \<le> quantity item \<and>
            0 \<le> dec_value (price item) \<and> dec_value (price item) \<le> 1000000) \<and>
        (\<exists>item \<in> set items. 10000 < quantity item) \<longrightarrow>
        (\<exists>item \<in> set items. 10000 < quantity item \<and>
           validate_order_items items =
             (False, ''Item '' @ sku item @ '': quantity exceeds maximum (10000)'')))
   \<and> (items \<noteq> [] \<and> length items \<le> 100 \<and> distinct (map sku items) \<and>
        (\<forall>item \<in> set items. 1 \<le> quantity item \<and> quantity item \<le> 10000 \<and>
            dec_value (price item) \<le> 1000000) \<and>
        (\<exists>item \<in> set items. dec_value (price item) < 0) \<longrightarrow>
        (\<exists>item \<in> set items. dec_value (price item) < 0 \<and>
           validate_order_items items =
             (False, ''Item '' @ sku item @ '': price cannot be negative'')))
   \<and> (items \<noteq> [] \<and> length items \<le> 100 \<and> distinct (map sku items) \<and>
        (\<forall>item \<in> set items. 1 \<le> quantity item \<and> quantity item \<le> 10000 \<and>
            0 \<le> dec_value (price item)) \<and>
        (\<exists>item \<in> set items. 1000000 < dec_value (price item)) \<longrightarrow>
        (\<exists>item \<in> set items. 1000000 < dec_value (price item) \<and>
           validate_order_items items =
             (False, ''Item '' @ sku item @ '': price exceeds maximum (1,000,000)'')))"
proof -
  have shape: "validate_order_items items = validate_each_item items"
    if "items \<noteq> []" "length items \<le> 100" "distinct (map sku items)"
    using that distinct_card [of "map sku items"] by (simp add: validate_order_items_def)
  have accepts: "fst (validate_order_items items) \<longleftrightarrow>
      items \<noteq> [] \<and> length items \<le> 100 \<and> distinct (map sku items) \<and>
      (\<forall>item \<in> set items. item_in_bounds item)"
  proof (cases "items \<noteq> [] \<and> length items \<le> 100 \<and> distinct (map sku items)")
    case True
    then show ?thesis
      by (simp add: shape validate_each_item_accepts_iff)
  next
    case False
    then have "\<not> fst (validate_order_items items)"
      using duplicate_test_iff [of "map sku items"]
      by (auto simp: validate_order_items_def)
    with False show ?thesis by blast
  qed
  have reason: "fst (validate_order_items items) \<longrightarrow> snd (validate_order_items items) = ''''"
    using accepts shape validate_each_item_accepts_reason by auto
  have empty: "items = [] \<longrightarrow>
      validate_order_items items = (False, ''Order must contain at least one item'')"
    by (simp add: validate_order_items_def)
  have many: "100 < length items \<longrightarrow>
      validate_order_items items = (False, ''Order cannot contain more than 100 items'')"
    by (auto simp: validate_order_items_def)
  have dup: "items \<noteq> [] \<and> length items \<le> 100 \<and> \<not> distinct (map sku items) \<longrightarrow>
      validate_order_items items = (False, ''Order contains duplicate SKUs'')"
    using duplicate_test_iff [of "map sku items"]
    by (auto simp: validate_order_items_def)
  show ?thesis
    using accepts reason empty many dup
      validate_each_item_quantity_low [of items] validate_each_item_quantity_high [of items]
      validate_each_item_price_low [of items] validate_each_item_price_high [of items]
    by (simp add: shape)
qed

theorem validate_order_items_spec_witness:
  "validate_order_items [item_X] = (True, '''')
   \<and> validate_order_items [] = (False, ''Order must contain at least one item'')
   \<and> validate_order_items (replicate 101 item_X) =
       (False, ''Order cannot contain more than 100 items'')
   \<and> validate_order_items [item_X, item_X] = (False, ''Order contains duplicate SKUs'')
   \<and> validate_order_items [item_X\<lparr>quantity := 0\<rparr>] = (False, ''Item X: quantity must be positive'')
   \<and> validate_order_items [item_X\<lparr>quantity := 10001\<rparr>] =
       (False, ''Item X: quantity exceeds maximum (10000)'')
   \<and> validate_order_items [item_X\<lparr>price := \<lparr>coefficient = - 1, exponent = - 2\<rparr>\<rparr>] =
       (False, ''Item X: price cannot be negative'')
   \<and> validate_order_items [item_X\<lparr>price := \<lparr>coefficient = 100000001, exponent = - 2\<rparr>\<rparr>] =
       (False, ''Item X: price exceeds maximum (1,000,000)'')"
proof -
  have v: "dec_value \<lparr>coefficient = 1000, exponent = - 2\<rparr> = 10"
    "dec_value \<lparr>coefficient = - 1, exponent = - 2\<rparr> = - 1 / 100"
    "dec_value \<lparr>coefficient = 100000001, exponent = - 2\<rparr> = 100000001 / 100"
    by (simp_all add: dec_value_def)
  have "fst (validate_order_items [item_X])"
    using validate_order_items_spec [of "[item_X]"]
    by (simp add: item_X_def item_in_bounds_def v)
  then have 1: "validate_order_items [item_X] = (True, '''')"
    using validate_order_items_spec [of "[item_X]"] by (simp add: prod_eq_iff)
  have 2: "validate_order_items [] = (False, ''Order must contain at least one item'')"
    using validate_order_items_spec [of "[]"] by simp
  have 3: "validate_order_items (replicate 101 item_X) =
       (False, ''Order cannot contain more than 100 items'')"
    using validate_order_items_spec [of "replicate 101 item_X"] by simp
  have 4: "validate_order_items [item_X, item_X] = (False, ''Order contains duplicate SKUs'')"
    using validate_order_items_spec [of "[item_X, item_X]"] by simp
  have 5: "validate_order_items [item_X\<lparr>quantity := 0\<rparr>] =
       (False, ''Item X: quantity must be positive'')"
    using validate_order_items_spec [of "[item_X\<lparr>quantity := 0\<rparr>]"]
    by (simp add: item_X_def v)
  have 6: "validate_order_items [item_X\<lparr>quantity := 10001\<rparr>] =
       (False, ''Item X: quantity exceeds maximum (10000)'')"
    using validate_order_items_spec [of "[item_X\<lparr>quantity := 10001\<rparr>]"]
    by (simp add: item_X_def v)
  have 7: "validate_order_items [item_X\<lparr>price := \<lparr>coefficient = - 1, exponent = - 2\<rparr>\<rparr>] =
       (False, ''Item X: price cannot be negative'')"
    using validate_order_items_spec [of "[item_X\<lparr>price := \<lparr>coefficient = - 1, exponent = - 2\<rparr>\<rparr>]"]
    by (simp add: item_X_def v)
  have 8: "validate_order_items [item_X\<lparr>price := \<lparr>coefficient = 100000001, exponent = - 2\<rparr>\<rparr>] =
       (False, ''Item X: price exceeds maximum (1,000,000)'')"
    using validate_order_items_spec [of "[item_X\<lparr>price := \<lparr>coefficient = 100000001, exponent = - 2\<rparr>\<rparr>]"]
    by (simp add: item_X_def v)
  from 1 2 3 4 5 6 7 8 show ?thesis by blast
qed

text \<open>
  C9 as stated accepts every list with at most 100 entries, unique SKUs and items within
  bounds. The empty list is such a list, and it is rejected.
\<close>

theorem validate_order_items_empty_counterexample:
  "length ([] :: order_item list) \<le> 100 \<and> distinct (map sku ([] :: order_item list)) \<and>
   \<not> fst (validate_order_items [])"
  by (simp add: validate_order_items_def)

subsection \<open>The status transition guard\<close>

lemma known_status_iff: "map_of valid_transitions s = None \<longleftrightarrow> s \<notin> set statuses"
  by (simp add: map_of_eq_None_iff valid_transitions_def statuses_def)

lemma rejected_pairs_eq:
  "rejected_pairs =
     [(''pending'', ''shipped''), (''pending'', ''delivered''),
      (''processing'', ''pending''), (''processing'', ''delivered''),
      (''shipped'', ''pending''), (''shipped'', ''processing''),
      (''delivered'', ''pending''), (''delivered'', ''processing''),
      (''delivered'', ''shipped''), (''delivered'', ''cancelled''),
      (''cancelled'', ''processing''), (''cancelled'', ''shipped''),
      (''cancelled'', ''delivered'')]"
  by (simp add: rejected_pairs_def statuses_def transition_accepted_def
      validate_order_status_transition_def valid_transitions_def)

lemma accepted_changes_eq: "accepted_changes = legal_edges"
  by (simp add: accepted_changes_def statuses_def transition_accepted_def legal_edges_def
      validate_order_status_transition_def valid_transitions_def)

text \<open>
  C2, amended. For old and new status among the five statuses, the guard accepts exactly
  when the new status equals the old one or the pair is one of the seven edges
  pending to processing, pending to cancelled, processing to shipped, processing to
  cancelled, shipped to delivered, shipped to cancelled and cancelled to pending; the 13
  remaining ordered pairs are rejected with a non-empty reason. A status outside the five
  is rejected with the reason "Unknown status: " followed by the offending status: the old
  one when it is unknown, otherwise the new one.
\<close>

theorem validate_order_status_transition_spec:
  "(old_status \<in> set statuses \<and> new_status \<in> set statuses \<longrightarrow>
      (fst (validate_order_status_transition old_status new_status) \<longleftrightarrow>
         new_status = old_status \<or> (old_status, new_status) \<in> set legal_edges) \<and>
      (\<not> fst (validate_order_status_transition old_status new_status) \<longrightarrow>
         snd (validate_order_status_transition old_status new_status) \<noteq> ''''))
   \<and> (old_status \<notin> set statuses \<longrightarrow>
        validate_order_status_transition old_status new_status =
          (False, ''Unknown status: '' @ old_status))
   \<and> (old_status \<in> set statuses \<and> new_status \<notin> set statuses \<longrightarrow>
        validate_order_status_transition old_status new_status =
          (False, ''Unknown status: '' @ new_status))
   \<and> length legal_edges = 7 \<and> length rejected_pairs = 13"
proof -
  have known: "old_status \<in> set statuses \<and> new_status \<in> set statuses \<longrightarrow>
      (fst (validate_order_status_transition old_status new_status) \<longleftrightarrow>
         new_status = old_status \<or> (old_status, new_status) \<in> set legal_edges) \<and>
      (\<not> fst (validate_order_status_transition old_status new_status) \<longrightarrow>
         snd (validate_order_status_transition old_status new_status) \<noteq> '''')"
    by (auto simp: statuses_def legal_edges_def validate_order_status_transition_def
        valid_transitions_def)
  have unknown_old: "old_status \<notin> set statuses \<longrightarrow>
        validate_order_status_transition old_status new_status =
          (False, ''Unknown status: '' @ old_status)"
    using known_status_iff [of old_status]
    by (auto simp: validate_order_status_transition_def)
  have unknown_new: "old_status \<in> set statuses \<and> new_status \<notin> set statuses \<longrightarrow>
        validate_order_status_transition old_status new_status =
          (False, ''Unknown status: '' @ new_status)"
    using known_status_iff [of old_status] known_status_iff [of new_status]
    by (auto simp: validate_order_status_transition_def split: option.splits)
  have counts: "length legal_edges = 7 \<and> length rejected_pairs = 13"
    by (simp add: rejected_pairs_eq) (simp add: legal_edges_def)
  from known unknown_old unknown_new counts show ?thesis by blast
qed

theorem validate_order_status_transition_spec_witness:
  "validate_order_status_transition ''cancelled'' ''pending'' = (True, '''')
   \<and> validate_order_status_transition ''delivered'' ''pending'' =
       (False, ''Invalid status transition: delivered -> pending'')
   \<and> validate_order_status_transition ''completed'' ''pending'' =
       (False, ''Unknown status: completed'')
   \<and> validate_order_status_transition ''pending'' ''completed'' =
       (False, ''Unknown status: completed'')"
proof -
  have 1: "fst (validate_order_status_transition ''cancelled'' ''pending'')"
    using validate_order_status_transition_spec [of "''cancelled''" "''pending''"]
    by (simp add: statuses_def legal_edges_def)
  have 2: "\<not> fst (validate_order_status_transition ''delivered'' ''pending'')"
    using validate_order_status_transition_spec [of "''delivered''" "''pending''"]
    by (simp add: statuses_def legal_edges_def)
  have 3: "validate_order_status_transition ''completed'' ''pending'' =
       (False, ''Unknown status: completed'')"
    using validate_order_status_transition_spec [of "''completed''" "''pending''"]
    by (simp add: statuses_def)
  have 4: "validate_order_status_transition ''pending'' ''completed'' =
       (False, ''Unknown status: completed'')"
    using validate_order_status_transition_spec [of "''pending''" "''completed''"]
    by (simp add: statuses_def)
  from 1 2 3 4 show ?thesis
    by (simp add: validate_order_status_transition_def valid_transitions_def)
qed

text \<open>
  C2 as stated speaks of six edges and of 14 rejected pairs. The guard accepts seven
  changes of status and rejects 13 of the 25 ordered pairs.
\<close>

theorem transition_counts_counterexample:
  "length accepted_changes = 7 \<and> length rejected_pairs = 13"
  by (simp add: rejected_pairs_eq accepted_changes_eq) (simp add: legal_edges_def)

subsection \<open>What the inventory client changes\<close>

lemma same_store_refl [simp]: "same_store w w"
  by (simp add: same_store_def)

lemma same_store_trans: "same_store w w1 \<Longrightarrow> same_store w1 w2 \<Longrightarrow> same_store w w2"
  by (simp add: same_store_def)

lemma next_fault_frame:
  "next_fault w = (w1, f) \<Longrightarrow>
     calls w1 = calls w \<and> same_store w w1 \<and> inventory w1 = inventory w \<and> users w1 = users w"
  by (auto simp: next_fault_def same_store_def split: list.splits)

lemma get_all_items_frame:
  "get_all_items token w = (w1, r) \<Longrightarrow>
     calls w1 = calls w \<and> same_store w w1 \<and> inventory w1 = inventory w \<and> users w1 = users w"
  by (auto simp: get_all_items_def split: prod.splits http_fault.splits dest: next_fault_frame)

lemma get_item_by_sku_frame:
  "get_item_by_sku sku' token w = (w1, r) \<Longrightarrow>
     calls w1 = calls w \<and> same_store w w1 \<and> inventory w1 = inventory w \<and> users w1 = users w"
  by (auto simp: get_item_by_sku_def split: prod.splits sum.splits dest: get_all_items_frame)

lemma update_inventory_item_frame:
  "update_inventory_item item_id new_qty token w = (w1, r) \<Longrightarrow>
     calls w1 = calls w \<and> same_store w w1 \<and> users w1 = users w"
  by (auto simp: update_inventory_item_def same_store_def split: if_splits)

lemma put_qty_frame:
  "put_qty item_id new_qty token w = (w1, r) \<Longrightarrow>
     calls w1 = calls w \<and> same_store w w1 \<and> users w1 = users w"
  by (auto simp: put_qty_def same_store_def split: prod.splits http_fault.splits
      dest!: next_fault_frame update_inventory_item_frame)

lemma reduce_inventory_frame:
  "reduce_inventory sku' quantity' token w = (w1, r) \<Longrightarrow>
     calls w1 = calls w @ [Reserve sku' quantity'] \<and> same_store w w1 \<and> users w1 = users w"
  by (auto simp: reduce_inventory_def same_store_def
      split: prod.splits sum.splits option.splits if_splits
      dest!: get_item_by_sku_frame put_qty_frame)

lemma restore_inventory_frame:
  "restore_inventory sku' quantity' token w = (w1, r) \<Longrightarrow>
     calls w1 = calls w @ [Release sku' quantity'] \<and> same_store w w1 \<and> users w1 = users w"
  by (auto simp: restore_inventory_def same_store_def
      split: prod.splits sum.splits option.splits if_splits
      dest!: get_item_by_sku_frame put_qty_frame)

subsection \<open>The calls of the saga\<close>

lemma reduce_inventory_calls:
  "calls (fst (reduce_inventory sku' quantity' token w)) = calls w @ [Reserve sku' quantity']"
  using reduce_inventory_frame [of sku' quantity' token w] by (simp add: prod_eq_iff)

lemma reduce_inventory_store:
  "same_store w (fst (reduce_inventory sku' quantity' token w))"
  using reduce_inventory_frame [of sku' quantity' token w] by (simp add: prod_eq_iff)

lemma restore_inventory_calls:
  "calls (fst (restore_inventory sku' quantity' token w)) = calls w @ [Release sku' quantity']"
  using restore_inventory_frame [of sku' quantity' token w] by (simp add: prod_eq_iff)

lemma restore_inventory_store:
  "same_store w (fst (restore_inventory sku' quantity' token w))"
  using restore_inventory_frame [of sku' quantity' token w] by (simp add: prod_eq_iff)

lemma rollback_calls:
  "calls (rollback_inventory_deductions items processed_skus token w) =
     calls w @ map release_call (filter (\<lambda>p. fst p \<in> set processed_skus) items)"
  by (induction items processed_skus token w rule: rollback_inventory_deductions.induct)
     (simp_all add: restore_inventory_calls release_call_def)

lemma rollback_store:
  "same_store w (rollback_inventory_deductions items processed_skus token w)"
proof (induction items processed_skus token w rule: rollback_inventory_deductions.induct)
  case (1 processed_skus token w)
  then show ?case by simp
next
  case (2 sku' quantity' items processed_skus token w)
  then show ?case
    using restore_inventory_store [of w sku' quantity' token]
    by (auto intro: same_store_trans)
qed

lemma reserve_prefix_calls:
  "calls (reserve_prefix ps token w) = calls w @ map reserve_call ps"
  by (induction ps arbitrary: w) (simp_all add: reduce_inventory_calls reserve_call_def)

lemma reserve_prefix_store: "same_store w (reserve_prefix ps token w)"
proof (induction ps arbitrary: w)
  case Nil
  then show ?case by simp
next
  case (Cons p ps)
  then show ?case
    using reduce_inventory_store [of w "fst p" "snd p" token]
    by (auto intro: same_store_trans)
qed

lemma reserve_prefix_append:
  "reserve_prefix (ps @ qs) token w = reserve_prefix qs token (reserve_prefix ps token w)"
  by (induction ps arbitrary: w) simp_all

lemma reservations_succeed_append:
  "reservations_succeed (ps @ qs) token w \<longleftrightarrow>
     reservations_succeed ps token w \<and> reservations_succeed qs token (reserve_prefix ps token w)"
  by (induction ps arbitrary: w) auto

text \<open>The loop runs to its end exactly when every reservation succeeds.\<close>

lemma deduct_loop_success:
  "reservations_succeed rest token w \<Longrightarrow>
     deduct_loop items rest processed_skus token w =
       (reserve_prefix rest token w, True, None, processed_skus @ map fst rest)"
proof (induction rest arbitrary: w processed_skus)
  case Nil
  then show ?case by simp
next
  case (Cons p rest)
  obtain sku' quantity' where p: "p = (sku', quantity')" by (cases p)
  obtain w1 success error_msg where r: "reduce_inventory sku' quantity' token w = (w1, success, error_msg)"
    by (cases "reduce_inventory sku' quantity' token w") auto
  from Cons.prems p r have "success" and "reservations_succeed rest token w1" by simp_all
  with Cons.IH [of w1 "processed_skus @ [sku']"] p r show ?case by simp
qed

text \<open>
  The loop at the first reservation that fails, after \<open>done\<close> reservations of this
  loop that succeeded.
\<close>

lemma deduct_loop_failure:
  assumes "reservations_succeed reserved token w"
    and "reduce_inventory sku' quantity' token (reserve_prefix reserved token w) = (w1, False, error_msg)"
  shows "deduct_loop items (reserved @ (sku', quantity') # rest) processed_skus token w =
       (if processed_skus @ map fst reserved \<noteq> [] then
          rollback_inventory_deductions items (processed_skus @ map fst reserved) token w1
        else w1,
        False, Some (''Inventory deduction failed: '' @ str_optional error_msg), [])"
  using assms
proof (induction reserved arbitrary: w processed_skus)
  case Nil
  then show ?case by simp
next
  case (Cons p reserved)
  obtain s q where p: "p = (s, q)" by (cases p)
  obtain w2 success e where r: "reduce_inventory s q token w = (w2, success, e)"
    by (cases "reduce_inventory s q token w") auto
  from Cons.prems p r have ok: "success" and rest_ok: "reservations_succeed reserved token w2"
    and fails: "reduce_inventory sku' quantity' token (reserve_prefix reserved token w2) = (w1, False, error_msg)"
    by simp_all
  from Cons.IH [OF rest_ok fails, of "processed_skus @ [s]"] p r ok show ?case by simp
qed

lemma restore_loop_result:
  "\<exists>w1 processed. restore_loop items processed_skus token w = (w1, True, None, processed) \<and>
     calls w1 = calls w @ map release_call items \<and> same_store w w1"
proof (induction items arbitrary: w processed_skus)
  case Nil
  then show ?case by simp
next
  case (Cons p items)
  obtain s q where p: "p = (s, q)" by (cases p)
  obtain w2 success e where r: "restore_inventory s q token w = (w2, success, e)"
    by (cases "restore_inventory s q token w") auto
  from restore_inventory_frame [OF r] have f: "calls w2 = calls w @ [Release s q]" "same_store w w2"
    by simp_all
  from Cons.IH [of "if success then processed_skus @ [s] else processed_skus" w2]
  obtain w1 processed where
    "restore_loop items (if success then processed_skus @ [s] else processed_skus) token w2 =
       (w1, True, None, processed)"
    "calls w1 = calls w2 @ map release_call items" "same_store w2 w1"
    by blast
  with p r f show ?case
    by (auto simp: release_call_def intro: same_store_trans)
qed

lemma filter_first_part:
  assumes "distinct (map fst (xs @ ys))"
  shows "filter (\<lambda>p. fst p \<in> set (map fst xs)) (xs @ ys) = xs"
proof -
  have "filter (\<lambda>p. fst p \<in> set (map fst xs)) xs = xs"
    by (induction xs) auto
  moreover have "filter (\<lambda>p. fst p \<in> set (map fst xs)) ys = []"
    using assms by (auto simp: filter_empty_conv)
  ultimately show ?thesis by simp
qed

lemma filter_reserved_distinct:
  assumes "distinct (map fst items)"
  shows "filter (\<lambda>p. fst p \<in> set (map fst (take k items))) items = take k items"
  using filter_first_part [of "take k items" "drop k items"] assms by simp

subsection \<open>Rollback of the reservations\<close>

text \<open>
  C10. When the first \<open>k\<close> lines of an item list are reserved and the reservation of
  the next line fails, the saga reports that failure and the rollback issues a release
  for every line of the whole list whose SKU is among the SKUs of the first \<open>k\<close>
  lines, in list order, whether or not that line was reserved. When the SKUs of the list
  are unique these are the first \<open>k\<close> lines, each released once. With a duplicate SKU
  they can be more: for two lines of three units of X and a stock of five, the first line
  is reserved, the second fails, both lines are released, and the stock ends at eight.
\<close>

theorem rollback_releases_by_sku:
  "(k < length items \<and> reservations_succeed (take k items) token w \<and>
    reduce_inventory (fst (items ! k)) (snd (items ! k)) token
      (reserve_prefix (take k items) token w) = (w1, False, error_msg) \<longrightarrow>
    (\<exists>w'. process_inventory_for_order items True token w =
            (w', False, Some (''Inventory deduction failed: '' @ str_optional error_msg), []) \<and>
          calls w' = calls w @ map reserve_call (take (Suc k) items) @
            map release_call (filter (\<lambda>p. fst p \<in> set (map fst (take k items))) items) \<and>
          (distinct (map fst items) \<longrightarrow>
             calls w' = calls w @ map reserve_call (take (Suc k) items) @
               map release_call (take k items))))
   \<and> process_inventory_for_order [(''X'', 3), (''X'', 3)] True admin world_A =
       (world_A\<lparr>inventory := [\<lparr>inv_id = 1, inv_sku = ''X'', inv_qty = 8\<rparr>],
                 calls := [Reserve ''X'' 3, Reserve ''X'' 3, Release ''X'' 3, Release ''X'' 3]\<rparr>,
        False,
        Some (''Inventory deduction failed: Insufficient inventory for SKU '' @ quoted ''X''
                @ ''. Available: 2, Requested: 3''),
        [])"
proof -
  have general: "\<exists>w'. process_inventory_for_order items True token w =
            (w', False, Some (''Inventory deduction failed: '' @ str_optional error_msg), []) \<and>
          calls w' = calls w @ map reserve_call (take (Suc k) items) @
            map release_call (filter (\<lambda>p. fst p \<in> set (map fst (take k items))) items) \<and>
          (distinct (map fst items) \<longrightarrow>
             calls w' = calls w @ map reserve_call (take (Suc k) items) @
               map release_call (take k items))"
    if k: "k < length items" and ok: "reservations_succeed (take k items) token w"
      and fails: "reduce_inventory (fst (items ! k)) (snd (items ! k)) token
        (reserve_prefix (take k items) token w) = (w1, False, error_msg)"
  proof -
    define w' where "w' =
      (if map fst (take k items) \<noteq> [] then
         rollback_inventory_deductions items (map fst (take k items)) token w1
       else w1)"
    have items: "items = take k items @ (fst (items ! k), snd (items ! k)) # drop (Suc k) items"
      using k by (simp add: id_take_nth_drop)
    have "deduct_loop items (take k items @ (fst (items ! k), snd (items ! k)) # drop (Suc k) items)
        [] token w =
        (w', False, Some (''Inventory deduction failed: '' @ str_optional error_msg), [])"
      using deduct_loop_failure [OF ok fails, of items "drop (Suc k) items" "[]"]
      by (simp add: w'_def)
    with items have result: "process_inventory_for_order items True token w =
        (w', False, Some (''Inventory deduction failed: '' @ str_optional error_msg), [])"
      by (simp add: process_inventory_for_order_def)
    have "calls w1 = calls w @ map reserve_call (take k items) @ [reserve_call (items ! k)]"
      using reduce_inventory_frame [OF fails] reserve_prefix_calls [of "take k items" token w]
      by (simp add: reserve_call_def)
    then have w1: "calls w1 = calls w @ map reserve_call (take (Suc k) items)"
      using k by (simp add: take_Suc_conv_app_nth)
    have log: "calls w' = calls w @ map reserve_call (take (Suc k) items) @
        map release_call (filter (\<lambda>p. fst p \<in> set (map fst (take k items))) items)"
    proof (cases "map fst (take k items) = []")
      case True
      then have "filter (\<lambda>p. fst p \<in> set (map fst (take k items))) items = []"
        by (simp only: list.set empty_iff) simp
      moreover from True have "w' = w1"
        by (simp add: w'_def)
      ultimately show ?thesis
        using w1 by simp
    next
      case False
      then show ?thesis by (simp add: w'_def w1 rollback_calls)
    qed
    have "distinct (map fst items) \<longrightarrow>
        calls w' = calls w @ map reserve_call (take (Suc k) items) @ map release_call (take k items)"
      using log filter_reserved_distinct [of items k] by simp
    with result log show ?thesis by blast
  qed
  have example: "process_inventory_for_order [(''X'', 3), (''X'', 3)] True admin world_A =
       (world_A\<lparr>inventory := [\<lparr>inv_id = 1, inv_sku = ''X'', inv_qty = 8\<rparr>],
                 calls := [Reserve ''X'' 3, Reserve ''X'' 3, Release ''X'' 3, Release ''X'' 3]\<rparr>,
        False,
        Some (''Inventory deduction failed: Insufficient inventory for SKU '' @ quoted ''X''
                @ ''. Available: 2, Requested: 3''),
        [])"
    by code_simp
  from general example show ?thesis by blast
qed

theorem rollback_releases_by_sku_witness:
  "calls (fst (process_inventory_for_order [(''X'', 3), (''X'', 3)] True admin world_A)) =
     [Reserve ''X'' 3, Reserve ''X'' 3, Release ''X'' 3, Release ''X'' 3]
   \<and> calls (fst (process_inventory_for_order [(''X'', 3), (''Y'', 1)] True admin world_A)) =
     [Reserve ''X'' 3, Reserve ''Y'' 1, Release ''X'' 3]
   \<and> snd (process_inventory_for_order [(''X'', 3), (''Y'', 1)] True admin world_A) =
     (False, Some (''Inventory deduction failed: SKU '' @ quoted ''Y'' @ '' not found''), [])"
proof -
  have k: "(1::nat) < length [(''X'', 3::int), (''X'', 3)]"
    "(1::nat) < length [(''X'', 3::int), (''Y'', 1)]"
    by simp_all
  have ok: "reservations_succeed (take 1 [(''X'', 3), (''X'', 3)]) admin world_A"
    "reservations_succeed (take 1 [(''X'', 3), (''Y'', 1)]) admin world_A"
    by code_simp+
  have dup_fails:
    "reduce_inventory (fst ([(''X'', 3), (''X'', 3)] ! 1)) (snd ([(''X'', 3), (''X'', 3)] ! 1)) admin
       (reserve_prefix (take 1 [(''X'', 3), (''X'', 3)]) admin world_A) =
     (world_A\<lparr>inventory := [\<lparr>inv_id = 1, inv_sku = ''X'', inv_qty = 2\<rparr>],
               calls := [Reserve ''X'' 3, Reserve ''X'' 3]\<rparr>,
      False,
      Some (''Insufficient inventory for SKU '' @ quoted ''X'' @ ''. Available: 2, Requested: 3''))"
    by code_simp
  have uniq_fails:
    "reduce_inventory (fst ([(''X'', 3), (''Y'', 1)] ! 1)) (snd ([(''X'', 3), (''Y'', 1)] ! 1)) admin
       (reserve_prefix (take 1 [(''X'', 3), (''Y'', 1)]) admin world_A) =
     (world_A\<lparr>inventory := [\<lparr>inv_id = 1, inv_sku = ''X'', inv_qty = 2\<rparr>],
               calls := [Reserve ''X'' 3, Reserve ''Y'' 1]\<rparr>,
      False, Some (''SKU '' @ quoted ''Y'' @ '' not found''))"
    by code_simp
  have calls0: "calls world_A = []"
    by (simp add: world_A_def)
  from rollback_releases_by_sku [THEN conjunct1, THEN mp, OF conjI [OF k(1) conjI [OF ok(1) dup_fails]]]
  have 1: "calls (fst (process_inventory_for_order [(''X'', 3), (''X'', 3)] True admin world_A)) =
     [Reserve ''X'' 3, Reserve ''X'' 3, Release ''X'' 3, Release ''X'' 3]"
    by (auto simp: calls0 reserve_call_def release_call_def)
  from rollback_releases_by_sku [THEN conjunct1, THEN mp, OF conjI [OF k(2) conjI [OF ok(2) uniq_fails]]]
  have 2: "calls (fst (process_inventory_for_order [(''X'', 3), (''Y'', 1)] True admin world_A)) =
     [Reserve ''X'' 3, Reserve ''Y'' 1, Release ''X'' 3]
   \<and> snd (process_inventory_for_order [(''X'', 3), (''Y'', 1)] True admin world_A) =
     (False, Some (''Inventory deduction failed: SKU '' @ quoted ''Y'' @ '' not found''), [])"
    by (auto simp: calls0 reserve_call_def release_call_def)
  from 1 2 show ?thesis by blast
qed

text \<open>
  C1 at an order with two lines for the same SKU. The order passes the remote
  validation, the first line is reserved, the reservation of the second line fails for
  lack of stock, and the rollback issues two releases where one reservation was made:
  the stock of X, five before the request, is eight after it.
\<close>

theorem create_order_duplicate_sku_rollback:
  "create_order order_dup admin world_A =
     (world_A\<lparr>inventory := [\<lparr>inv_id = 1, inv_sku = ''X'', inv_qty = 8\<rparr>],
               calls := [Reserve ''X'' 3, Reserve ''X'' 3, Release ''X'' 3, Release ''X'' 3]\<rparr>,
      Inl (HTTPException 400
        (''Inventory deduction failed: Insufficient inventory for SKU '' @ quoted ''X''
           @ ''. Available: 2, Requested: 3'')))"
  by code_simp

end
